theory Spec2Isabelle
  imports Main "HOL-Library.Sublist"
begin

section \<open>The world the scan runs in\<close>

text \<open>
  The script \<^verbatim>\<open>read_evtx_files.py\<close> is one function, \<^verbatim>\<open>read_evtx_files(directory)\<close>,
  that looks at a directory through \<^verbatim>\<open>pathlib\<close> and \<^verbatim>\<open>open\<close> and prints a report.
  Its input is therefore the file system, and its result is the sequence of things it did
  (the calls into the operating system and the lines printed), together with the exception
  that left the function, if one did.

  Python \<^verbatim>\<open>bytes\<close> are lists of 8-bit characters, so \<^verbatim>\<open>b'ElfF'\<close> is \<open>''ElfF''\<close>.
\<close>

type_synonym bytes = string

text \<open>
  The exceptions of the operating-system layer. All of them are subclasses of
  \<^verbatim>\<open>OSError\<close>, hence of \<^verbatim>\<open>Exception\<close>: the clause \<^verbatim>\<open>except Exception as e\<close>
  catches each of them. \<open>OSError n\<close> is an error with \<^verbatim>\<open>errno\<close> \<open>n\<close> that has none of the
  four subclasses named here.
\<close>

datatype exn =
    FileNotFoundError
  | NotADirectoryError
  | PermissionError
  | IsADirectoryError
  | OSError nat

text \<open>The \<^verbatim>\<open>errno\<close> of an exception (Linux numbering).\<close>

fun errno :: "exn \<Rightarrow> nat" where
  "errno FileNotFoundError = 2"
| "errno NotADirectoryError = 20"
| "errno PermissionError = 13"
| "errno IsADirectoryError = 21"
| "errno (OSError n) = n"

text \<open>
  \<^verbatim>\<open>pathlib._ignore_error\<close>: the errors that \<^verbatim>\<open>Path.exists()\<close> and \<^verbatim>\<open>Path.is_dir()\<close>
  turn into \<^verbatim>\<open>False\<close>, those whose \<^verbatim>\<open>errno\<close> is one of
  \<^verbatim>\<open>_IGNORED_ERRNOS = (ENOENT, ENOTDIR, EBADF, ELOOP)\<close>. Every other \<^verbatim>\<open>OSError\<close> is
  raised again.
\<close>

definition ignore_error :: "exn \<Rightarrow> bool" where
  "ignore_error e = (errno e = 2 \<or> errno e = 20 \<or> errno e = 9 \<or> errno e = 40)"

text \<open>
  A node of the file system, as far as the script can observe it.
  \<^item> \<open>File oe re bs\<close>: a regular file with content \<open>bs\<close>. \<open>oe = Some e\<close>: opening it for
    reading raises \<open>e\<close> (no read permission, \ldots); \<open>re = Some e\<close>: it opens, and reading
    from it raises \<open>e\<close> (an I/O error).
  \<^item> \<open>Dir sz le es\<close>: a directory whose \<^verbatim>\<open>st_size\<close> is \<open>sz\<close> and whose entries, in the
    order the operating system enumerates them, are \<open>es\<close>. \<open>le = Some e\<close>: listing it
    (\<^verbatim>\<open>scandir\<close>) raises \<open>e\<close>, as for a directory without read permission; the entries
    are there all the same. An entry is a name and what the name resolves to: \<open>Inr n\<close>,
    the node \<open>n\<close>, or \<open>Inl e\<close> when every access through the name raises \<open>e\<close> (a dangling
    symbolic link, a file removed after the enumeration, \ldots).
\<close>

datatype node =
    File "exn option" "exn option" bytes
  | Dir nat "exn option" "(string \<times> (exn + node)) list"

type_synonym dirent = "string \<times> (exn + node)"

text \<open>
  The file system, seen from the process. \<open>lookup\<close> maps a path to the node it names;
  \<open>None\<close>: the path does not exist. \<open>access\<close> gives the error that resolving the path
  raises before the node is reached, if any: no search permission on a directory on the
  way, a component that is not a directory, a name that is too long.
\<close>

record filesystem =
  lookup :: "string \<Rightarrow> node option"
  access :: "string \<Rightarrow> exn option"

text \<open>The entries a node really has, listable or not.\<close>

fun entries :: "node \<Rightarrow> dirent list" where
  "entries (Dir sz le es) = es"
| "entries (File oe re bs) = []"

subsection \<open>The library calls the script makes\<close>

text \<open>
  \<^verbatim>\<open>pathlib\<close> and \<^verbatim>\<open>open\<close> are modelled as CPython 3.11 implements them on POSIX.
  Each call either answers or raises, and what it raises is part of its result.
\<close>

text \<open>\<^verbatim>\<open>Path.stat()\<close> on the scanned path: the node, or the exception raised.\<close>

definition stat_path :: "filesystem \<Rightarrow> string \<Rightarrow> exn + node" where
  "stat_path fs p =
     (case access fs p of
        Some e \<Rightarrow> Inl e
      | None \<Rightarrow> (case lookup fs p of None \<Rightarrow> Inl FileNotFoundError | Some n \<Rightarrow> Inr n))"

text \<open>
  \<^verbatim>\<open>Path.exists()\<close>:
  \<^verbatim>\<open>
  try:
      self.stat()
  except OSError as e:
      if not _ignore_error(e):
          raise
      return False
  return True
  \<close>
  It answers, or it raises the error of \<^verbatim>\<open>stat\<close> again.
\<close>

definition path_exists :: "filesystem \<Rightarrow> string \<Rightarrow> exn + bool" where
  "path_exists fs p =
     (case stat_path fs p of
        Inl e \<Rightarrow> (if ignore_error e then Inr False else Inl e)
      | Inr n \<Rightarrow> Inr True)"

text \<open>
  The pattern \<^verbatim>\<open>*.evtx\<close> of \<^verbatim>\<open>Path.glob\<close>: the star matches any run of characters, the
  empty one and one that starts with a dot included, and the rest is literal and
  case-sensitive (POSIX). So a name matches when its last five characters are \<^verbatim>\<open>.evtx\<close>.
\<close>

definition fnmatch_evtx :: "string \<Rightarrow> bool" where
  "fnmatch_evtx nm = (drop (length nm - 5) nm = ''.evtx'')"

definition matching :: "dirent list \<Rightarrow> dirent list" where
  "matching es = filter (\<lambda>ent. fnmatch_evtx (fst ent)) es"

text \<open>
  \<^verbatim>\<open>list(Path.glob("*.evtx"))\<close> on a node. The selector lists the directory with
  \<^verbatim>\<open>scandir\<close> and yields the matching immediate entries in enumeration order, without
  looking at what they are; the whole of it runs under \<^verbatim>\<open>except PermissionError: return\<close>,
  so a directory that may not be listed yields nothing, and any other error of
  \<^verbatim>\<open>scandir\<close> leaves \<^verbatim>\<open>glob\<close>. On a path that is not a directory the generator
  yields nothing.
\<close>

fun path_glob :: "node \<Rightarrow> exn + dirent list" where
  "path_glob (File oe re bs) = Inr []"
| "path_glob (Dir sz None es) = Inr (matching es)"
| "path_glob (Dir sz (Some e) es) = (if e = PermissionError then Inr [] else Inl e)"

text \<open>
  \<^verbatim>\<open>glob\<close> starts with \<^verbatim>\<open>is_dir()\<close>, which calls \<^verbatim>\<open>stat\<close> and treats its errors as
  \<^verbatim>\<open>exists()\<close> does.
\<close>

definition glob_at :: "filesystem \<Rightarrow> string \<Rightarrow> exn + dirent list" where
  "glob_at fs p =
     (case stat_path fs p of
        Inl e \<Rightarrow> (if ignore_error e then Inr [] else Inl e)
      | Inr n \<Rightarrow> path_glob n)"

text \<open>\<^verbatim>\<open>Path.stat().st_size\<close>; it follows the name, so it raises when the name does not resolve.\<close>

fun stat_size :: "exn + node \<Rightarrow> exn + nat" where
  "stat_size (Inl e) = Inl e"
| "stat_size (Inr (File oe re bs)) = Inr (length bs)"
| "stat_size (Inr (Dir sz le es)) = Inr sz"

text \<open>\<^verbatim>\<open>open(path, 'rb')\<close>: a handle on the content, or the exception raised.\<close>

datatype handle = Handle "exn option" bytes

fun open_rb :: "exn + node \<Rightarrow> exn + handle" where
  "open_rb (Inl e) = Inl e"
| "open_rb (Inr (File None re bs)) = Inr (Handle re bs)"
| "open_rb (Inr (File (Some e) re bs)) = Inl e"
| "open_rb (Inr (Dir sz le es)) = Inl IsADirectoryError"

text \<open>\<^verbatim>\<open>f.read(n)\<close> on a fresh handle: at most the first \<open>n\<close> bytes.\<close>

fun file_read :: "handle \<Rightarrow> nat \<Rightarrow> exn + bytes" where
  "file_read (Handle None bs) n = Inr (take n bs)"
| "file_read (Handle (Some e) bs) n = Inl e"

section \<open>What the scan does\<close>

text \<open>
  One constructor for each \<^verbatim>\<open>print\<close> of the script:
  \<^item> \<open>DirectoryMissing d\<close>: \<^verbatim>\<open>Error: Directory '{directory}' does not exist\<close>
  \<^item> \<open>NoFilesFound d\<close>: \<^verbatim>\<open>No .evtx files found in '{directory}'\<close>
  \<^item> \<open>FoundCount k\<close>: \<^verbatim>\<open>Found {len(evtx_files)} .evtx file(s):\<close>
  \<^item> \<open>Rule\<close>: the line of fifty dashes
  \<^item> \<open>FileName nm\<close>: \<^verbatim>\<open>File: {evtx_file.name}\<close>
  \<^item> \<open>FileSize k\<close>: \<^verbatim>\<open>Size: {evtx_file.stat().st_size:,} bytes\<close>
  \<^item> \<open>ValidSignature\<close>: \<^verbatim>\<open>Valid EVTX file signature detected\<close>
  \<^item> \<open>SignatureWarning\<close>: \<^verbatim>\<open>Warning: File may not be a valid EVTX file\<close>
  \<^item> \<open>ReadError e\<close>: \<^verbatim>\<open>Error reading file: {e}\<close>
\<close>

datatype report =
    DirectoryMissing string
  | NoFilesFound string
  | FoundCount nat
  | Rule
  | FileName string
  | FileSize nat
  | ValidSignature
  | SignatureWarning
  | ReadError exn

text \<open>
  The effects of a run, in program order: a printed line, or a call into the operating
  system. \<open>Open nm mode\<close> records the mode string the file is opened with; an entry is
  named by its name inside the scanned directory.
\<close>

datatype effect =
    Print report
  | Exists string
  | Glob string string
  | Stat string
  | Open string string
  | Read nat
  | Close

text \<open>The console: the printed lines of a run, in order.\<close>

fun console :: "effect list \<Rightarrow> report list" where
  "console [] = []"
| "console (Print r # tr) = r # console tr"
| "console (x # tr) = console tr"

text \<open>
  An effect changes the file system when it opens a file in a mode that can write:
  one with \<^verbatim>\<open>w\<close>, \<^verbatim>\<open>a\<close>, \<^verbatim>\<open>x\<close> or \<^verbatim>\<open>+\<close> in it. Existence tests, enumeration,
  \<^verbatim>\<open>stat\<close>, reading and closing change nothing, and neither does printing.
\<close>

fun mutating :: "effect \<Rightarrow> bool" where
  "mutating (Open nm mode) = (set mode \<inter> set ''wax+'' \<noteq> {})"
| "mutating x = False"

subsection \<open>The body of the \<^verbatim>\<open>try\<close> block\<close>

text \<open>
  \<^verbatim>\<open>
  try:
      with open(evtx_file, 'rb') as f:
          header = f.read(8)
          if header[:4] == b'ElfF':
              print("Valid EVTX file signature detected")
          else:
              print("Warning: File may not be a valid EVTX file")
  except Exception as e:
      print(f"Error reading file: {e}")
  \<close>
  The \<^verbatim>\<open>with\<close> block closes the file once it was opened, before the handler runs.
\<close>

definition check_signature :: "dirent \<Rightarrow> effect list" where
  "check_signature ent =
     Open (fst ent) ''rb'' #
     (case open_rb (snd ent) of
        Inl e \<Rightarrow> [Print (ReadError e)]
      | Inr f \<Rightarrow>
          Read 8 #
          (case file_read f 8 of
             Inl e \<Rightarrow> [Close, Print (ReadError e)]
           | Inr header \<Rightarrow>
               [Print (if take 4 header = ''ElfF'' then ValidSignature else SignatureWarning),
                Close]))"

subsection \<open>The loop over the matched entries\<close>

text \<open>
  The name is printed, then \<^verbatim>\<open>stat\<close> is called inside the second \<^verbatim>\<open>print\<close>, outside
  the \<^verbatim>\<open>try\<close> block: an exception it raises leaves the loop and the function.
\<close>

fun process_entries :: "dirent list \<Rightarrow> effect list \<times> exn option" where
  "process_entries [] = ([], None)"
| "process_entries (ent # rest) =
     (case stat_size (snd ent) of
        Inl e \<Rightarrow> ([Print (FileName (fst ent)), Stat (fst ent)], Some e)
      | Inr sz \<Rightarrow>
          (case process_entries rest of
             (tr, r) \<Rightarrow>
               (Print (FileName (fst ent)) # Stat (fst ent) # Print (FileSize sz) #
                check_signature ent @ tr, r)))"

subsection \<open>The function\<close>

text \<open>
  The result is the list of effects and \<open>None\<close> when the function returned, \<open>Some e\<close>
  when the exception \<open>e\<close> left it. Neither \<^verbatim>\<open>dir_path.exists()\<close> nor
  \<^verbatim>\<open>list(dir_path.glob("*.evtx"))\<close> is inside a \<^verbatim>\<open>try\<close> block: what they raise leaves
  the function.
\<close>

definition read_evtx_files :: "filesystem \<Rightarrow> string \<Rightarrow> effect list \<times> exn option" where
  "read_evtx_files fs directory =
     (case path_exists fs directory of
        Inl e \<Rightarrow> ([Exists directory], Some e)
      | Inr found \<Rightarrow>
          if \<not> found then
            ([Exists directory, Print (DirectoryMissing directory)], None)
          else
            (case glob_at fs directory of
               Inl e \<Rightarrow> ([Exists directory, Glob directory ''*.evtx''], Some e)
             | Inr evtx_files \<Rightarrow>
                 if evtx_files = [] then
                   ([Exists directory, Glob directory ''*.evtx'',
                     Print (NoFilesFound directory)], None)
                 else
                   (case process_entries evtx_files of
                      (tr, r) \<Rightarrow>
                        (Exists directory # Glob directory ''*.evtx'' #
                         Print (FoundCount (length evtx_files)) # Print Rule # tr, r))))"

text \<open>The default argument, and the call under \<^verbatim>\<open>if __name__ == "__main__"\<close>.\<close>

definition default_directory :: string where
  "default_directory = ''evtx_files''"

definition main :: "filesystem \<Rightarrow> effect list \<times> exn option" where
  "main fs = read_evtx_files fs default_directory"

text \<open>What one matched entry whose \<^verbatim>\<open>stat\<close> succeeds adds to the console.\<close>

definition entry_report :: "dirent \<Rightarrow> report list" where
  "entry_report ent =
     (case stat_size (snd ent) of
        Inl e \<Rightarrow> [FileName (fst ent)]
      | Inr sz \<Rightarrow> FileName (fst ent) # FileSize sz # console (check_signature ent))"

text \<open>Every \<^verbatim>\<open>stat\<close> of a list of entries succeeds.\<close>

fun stat_ok :: "dirent \<Rightarrow> bool" where
  "stat_ok ent = (case stat_size (snd ent) of Inl e \<Rightarrow> False | Inr sz \<Rightarrow> True)"

text \<open>
  The exception that the \<^verbatim>\<open>try\<close> block catches for an entry, if any: the one raised
  by \<^verbatim>\<open>open\<close>, or by \<^verbatim>\<open>read\<close> once the file is open.
\<close>

definition read_failure :: "dirent \<Rightarrow> exn option" where
  "read_failure ent =
     (case open_rb (snd ent) of
        Inl e \<Rightarrow> Some e
      | Inr f \<Rightarrow> (case file_read f 8 of Inl e \<Rightarrow> Some e | Inr header \<Rightarrow> None))"

text \<open>The entry names a console mentions, in order and with repetitions.\<close>

fun reported_names :: "report list \<Rightarrow> string list" where
  "reported_names [] = []"
| "reported_names (FileName nm # rs) = nm # reported_names rs"
| "reported_names (r # rs) = reported_names rs"

text \<open>
  A run is past the initial check (the \<^verbatim>\<open>exists\<close> test and its early \<^verbatim>\<open>return\<close>) when
  it reaches the next statement, the enumeration.
\<close>

fun is_glob :: "effect \<Rightarrow> bool" where
  "is_glob (Glob d p) = True"
| "is_glob x = False"

definition past_initial_check :: "effect list \<Rightarrow> bool" where
  "past_initial_check tr = list_ex is_glob tr"

fun is_directory :: "node \<Rightarrow> bool" where
  "is_directory (Dir sz le es) = True"
| "is_directory (File oe re bs) = False"

text \<open>The lines of the loop: what is printed for an entry.\<close>

fun is_entry_report :: "report \<Rightarrow> bool" where
  "is_entry_report (FileName nm) = True"
| "is_entry_report (FileSize k) = True"
| "is_entry_report ValidSignature = True"
| "is_entry_report SignatureWarning = True"
| "is_entry_report (ReadError e) = True"
| "is_entry_report r = False"

subsection \<open>Example file systems\<close>

text \<open>The spec's own example: \<^verbatim>\<open>a.evtx\<close>, eight bytes starting with the magic, and \<^verbatim>\<open>notes.txt\<close>.\<close>

definition example_dir :: node where
  "example_dir = Dir 4096 None
     [(''a.evtx'', Inr (File None None ''ElfFile0'')),
      (''notes.txt'', Inr (File None None ''hello''))]"

definition example_fs :: filesystem where
  "example_fs =
     \<lparr>lookup = (\<lambda>p. if p = ''evtx_files'' then Some example_dir else None),
      access = (\<lambda>p. None)\<rparr>"

text \<open>
  A directory with an unreadable file, a subdirectory whose name ends in \<^verbatim>\<open>.evtx\<close> and
  holds a file of its own, a file with an upper-case extension and a two-byte file.
\<close>

definition mixed_dir :: node where
  "mixed_dir = Dir 4096 None
     [(''locked.evtx'', Inr (File (Some PermissionError) None ''ElfFile0'')),
      (''README.EVTX'', Inr (File None None ''ElfFile0'')),
      (''sub.evtx'', Inr (Dir 64 None [(''inner.evtx'', Inr (File None None ''ElfFile0''))])),
      (''short.evtx'', Inr (File None None ''El''))]"

definition mixed_fs :: filesystem where
  "mixed_fs =
     \<lparr>lookup = (\<lambda>p. if p = ''logs'' then Some mixed_dir else None),
      access = (\<lambda>p. None)\<rparr>"

text \<open>
  A directory whose first matching name no longer resolves; a file and a subdirectory
  with matching names follow it.
\<close>

definition dangling_dir :: node where
  "dangling_dir = Dir 4096 None
     [(''a.evtx'', Inl FileNotFoundError),
      (''b.evtx'', Inr (File None None ''ElfFile0'')),
      (''sub.evtx'', Inr (Dir 64 None []))]"

definition dangling_fs :: filesystem where
  "dangling_fs =
     \<lparr>lookup = (\<lambda>p. if p = ''logs'' then Some dangling_dir else None),
      access = (\<lambda>p. None)\<rparr>"

text \<open>
  A directory that may be entered and not listed (mode 0300): its files can be reached
  by name, \<^verbatim>\<open>scandir\<close> raises \<^verbatim>\<open>PermissionError\<close>.
\<close>

definition unlistable_dir :: node where
  "unlistable_dir = Dir 4096 (Some PermissionError)
     [(''a.evtx'', Inr (File None None ''ElfFile0'')),
      (''b.evtx'', Inr (File None None ''ElfFile0'')),
      (''sub.evtx'', Inr (Dir 64 None []))]"

definition unlistable_fs :: filesystem where
  "unlistable_fs =
     \<lparr>lookup = (\<lambda>p. if p = ''drop'' then Some unlistable_dir else None),
      access = (\<lambda>p. None)\<rparr>"

text \<open>
  A directory \<^verbatim>\<open>vault\<close> without search permission (mode 000). Under it are a directory
  \<^verbatim>\<open>logs\<close> with a matching file, a directory \<^verbatim>\<open>docs\<close> without one, and no \<^verbatim>\<open>gone\<close>:
  \<^verbatim>\<open>stat\<close> raises \<^verbatim>\<open>PermissionError\<close> for all three paths.
\<close>

definition vault_logs :: node where
  "vault_logs = Dir 4096 None
     [(''a.evtx'', Inr (File None None ''ElfFile0'')),
      (''notes.txt'', Inr (File None None ''hello''))]"

definition vault_docs :: node where
  "vault_docs = Dir 4096 None [(''notes.txt'', Inr (File None None ''hello''))]"

definition vault_fs :: filesystem where
  "vault_fs =
     \<lparr>lookup = (\<lambda>p.
        if p = ''vault/logs'' then Some vault_logs
        else if p = ''vault/docs'' then Some vault_docs
        else None),
      access = (\<lambda>p.
        if p = ''vault/logs'' \<or> p = ''vault/docs'' \<or> p = ''vault/gone''
        then Some PermissionError else None)\<rparr>"

text \<open>A directory whose listing fails with an I/O error (\<^verbatim>\<open>EIO\<close>, 5).\<close>

definition faulty_dir :: node where
  "faulty_dir = Dir 4096 (Some (OSError 5)) [(''notes.txt'', Inr (File None None ''hello''))]"

definition faulty_fs :: filesystem where
  "faulty_fs =
     \<lparr>lookup = (\<lambda>p. if p = ''bad'' then Some faulty_dir else None),
      access = (\<lambda>p. None)\<rparr>"

text \<open>A path that names a regular file, and a directory without a matching entry.\<close>

definition plain_file_fs :: filesystem where
  "plain_file_fs =
     \<lparr>lookup = (\<lambda>p. if p = ''notes.txt'' then Some (File None None ''hello'') else None),
      access = (\<lambda>p. None)\<rparr>"

definition no_match_fs :: filesystem where
  "no_match_fs =
     \<lparr>lookup = (\<lambda>p.
        if p = ''docs'' then
          Some (Dir 4096 None [(''notes.txt'', Inr (File None None ''hello'')),
                               (''evtx'', Inr (File None None ''ElfFile0''))])
        else None),
      access = (\<lambda>p. None)\<rparr>"

section \<open>Basic facts\<close>

lemma console_append: "console (xs @ ys) = console xs @ console ys"
  by (induction xs rule: console.induct) simp_all

lemma fnmatch_evtx_suffix: "fnmatch_evtx nm = suffix ''.evtx'' nm"
proof
  assume "fnmatch_evtx nm"
  then have "nm = take (length nm - 5) nm @ ''.evtx''"
    unfolding fnmatch_evtx_def by (metis append_take_drop_id)
  then show "suffix ''.evtx'' nm"
    unfolding suffix_def by blast
next
  assume "suffix ''.evtx'' nm"
  then obtain zs where "nm = zs @ ''.evtx''"
    unfolding suffix_def by blast
  then show "fnmatch_evtx nm"
    unfolding fnmatch_evtx_def by simp
qed

lemma matching_suffix: "matching es = filter (\<lambda>ent. suffix ''.evtx'' (fst ent)) es"
  by (simp add: matching_def fnmatch_evtx_suffix)

lemma matching_append: "matching (xs @ ys) = matching xs @ matching ys"
  by (simp add: matching_def)

lemma process_entries_append:
  "list_all stat_ok pre \<Longrightarrow>
   process_entries (pre @ es) =
     (fst (process_entries pre) @ fst (process_entries es), snd (process_entries es))"
  by (induction pre) (auto split: sum.splits prod.splits)

lemma process_entries_ok:
  "list_all stat_ok es \<Longrightarrow>
   snd (process_entries es) = None \<and>
   console (fst (process_entries es)) = concat (map entry_report es)"
  by (induction es) (auto simp: entry_report_def console_append split: sum.splits prod.splits)

lemma scan_on_matches:
  "stat_path fs directory = Inr d \<Longrightarrow> path_glob d = Inr ms \<Longrightarrow> ms \<noteq> [] \<Longrightarrow>
   read_evtx_files fs directory =
     (Exists directory # Glob directory ''*.evtx'' #
      Print (FoundCount (length ms)) # Print Rule #
      fst (process_entries ms), snd (process_entries ms))"
  by (simp add: read_evtx_files_def path_exists_def glob_at_def split: prod.splits)

lemma scan_no_matches:
  "stat_path fs directory = Inr d \<Longrightarrow> path_glob d = Inr [] \<Longrightarrow>
   read_evtx_files fs directory =
     ([Exists directory, Glob directory ''*.evtx'', Print (NoFilesFound directory)], None)"
  by (simp add: read_evtx_files_def path_exists_def glob_at_def)

lemma console_check_signature_failure:
  "read_failure ent = Some e \<Longrightarrow> console (check_signature ent) = [ReadError e]"
  by (auto simp: read_failure_def check_signature_def split: sum.splits)

lemma reported_names_append:
  "reported_names (xs @ ys) = reported_names xs @ reported_names ys"
  by (induction xs rule: reported_names.induct) simp_all

lemma reported_names_check_signature: "reported_names (console (check_signature ent)) = []"
  by (simp add: check_signature_def split: sum.splits)

lemma reported_names_entries:
  "list_all stat_ok es \<Longrightarrow> reported_names (concat (map entry_report es)) = map fst es"
  by (induction es)
     (auto simp: entry_report_def reported_names_append reported_names_check_signature
           split: sum.splits)

lemma not_mutating_check_signature: "list_all (\<lambda>x. \<not> mutating x) (check_signature ent)"
  by (simp add: check_signature_def split: sum.splits)

lemma not_mutating_process_entries: "list_all (\<lambda>x. \<not> mutating x) (fst (process_entries es))"
  by (induction es) (auto simp: not_mutating_check_signature split: sum.splits prod.splits)

subsection \<open>Runs on the example file systems\<close>

lemmas run_defs =
  read_evtx_files_def path_exists_def stat_path_def glob_at_def matching_def fnmatch_evtx_def
  ignore_error_def check_signature_def read_failure_def entry_report_def
  past_initial_check_def

lemma run_example:
  "read_evtx_files example_fs ''evtx_files'' =
     ([Exists ''evtx_files'', Glob ''evtx_files'' ''*.evtx'', Print (FoundCount 1), Print Rule,
       Print (FileName ''a.evtx''), Stat ''a.evtx'', Print (FileSize 8),
       Open ''a.evtx'' ''rb'', Read 8, Print ValidSignature, Close], None)"
  by (simp add: run_defs example_fs_def example_dir_def)

lemma run_mixed:
  "read_evtx_files mixed_fs ''logs'' =
     ([Exists ''logs'', Glob ''logs'' ''*.evtx'', Print (FoundCount 3), Print Rule,
       Print (FileName ''locked.evtx''), Stat ''locked.evtx'', Print (FileSize 8),
       Open ''locked.evtx'' ''rb'', Print (ReadError PermissionError),
       Print (FileName ''sub.evtx''), Stat ''sub.evtx'', Print (FileSize 64),
       Open ''sub.evtx'' ''rb'', Print (ReadError IsADirectoryError),
       Print (FileName ''short.evtx''), Stat ''short.evtx'', Print (FileSize 2),
       Open ''short.evtx'' ''rb'', Read 8, Print SignatureWarning, Close], None)"
  by (simp add: run_defs mixed_fs_def mixed_dir_def)

lemma run_dangling:
  "read_evtx_files dangling_fs ''logs'' =
     ([Exists ''logs'', Glob ''logs'' ''*.evtx'', Print (FoundCount 3), Print Rule,
       Print (FileName ''a.evtx''), Stat ''a.evtx''], Some FileNotFoundError)"
  by (simp add: run_defs dangling_fs_def dangling_dir_def)

lemma run_unlistable:
  "read_evtx_files unlistable_fs ''drop'' =
     ([Exists ''drop'', Glob ''drop'' ''*.evtx'', Print (NoFilesFound ''drop'')], None)"
  by (simp add: run_defs unlistable_fs_def unlistable_dir_def)

lemma run_vault:
  "read_evtx_files vault_fs ''vault/logs'' = ([Exists ''vault/logs''], Some PermissionError)"
  "read_evtx_files vault_fs ''vault/docs'' = ([Exists ''vault/docs''], Some PermissionError)"
  "read_evtx_files vault_fs ''vault/gone'' = ([Exists ''vault/gone''], Some PermissionError)"
  by (simp_all add: run_defs vault_fs_def)

lemma run_faulty:
  "read_evtx_files faulty_fs ''bad'' =
     ([Exists ''bad'', Glob ''bad'' ''*.evtx''], Some (OSError 5))"
  by (simp add: run_defs faulty_fs_def faulty_dir_def)

lemma run_plain_file:
  "read_evtx_files plain_file_fs ''notes.txt'' =
     ([Exists ''notes.txt'', Glob ''notes.txt'' ''*.evtx'', Print (NoFilesFound ''notes.txt'')],
      None)"
  by (simp add: run_defs plain_file_fs_def)

lemma stat_mixed: "stat_path mixed_fs ''logs'' = Inr mixed_dir"
  by (simp add: stat_path_def mixed_fs_def)

lemma stat_dangling: "stat_path dangling_fs ''logs'' = Inr dangling_dir"
  by (simp add: stat_path_def dangling_fs_def)

lemma matching_mixed:
  "matching (entries mixed_dir) =
     [(''locked.evtx'', Inr (File (Some PermissionError) None ''ElfFile0'')),
      (''sub.evtx'', Inr (Dir 64 None [(''inner.evtx'', Inr (File None None ''ElfFile0''))])),
      (''short.evtx'', Inr (File None None ''El''))]"
  by (simp add: mixed_dir_def matching_def fnmatch_evtx_def)

lemma matching_dangling:
  "matching (entries dangling_dir) =
     [(''a.evtx'', Inl FileNotFoundError),
      (''b.evtx'', Inr (File None None ''ElfFile0'')),
      (''sub.evtx'', Inr (Dir 64 None []))]"
  by (simp add: dangling_dir_def matching_def fnmatch_evtx_def)

lemma glob_mixed: "path_glob mixed_dir = Inr (matching (entries mixed_dir))"
  by (simp add: mixed_dir_def)

lemma glob_dangling: "path_glob dangling_dir = Inr (matching (entries dangling_dir))"
  by (simp add: dangling_dir_def)

section \<open>The claims\<close>

subsection \<open>C1: the signature is valid exactly when the first four bytes are the magic\<close>

text \<open>
  Claim C1. Take a matched entry whose size is obtained, whose file opens and whose
  \<^verbatim>\<open>read(8)\<close> returns \<open>header\<close>. The loop prints its name, its size and then exactly one
  line about the signature: valid when the first four bytes of \<open>header\<close> are \<^verbatim>\<open>ElfF\<close>,
  the warning for any other first four bytes; then it goes on with the remaining entries.
  In particular a header shorter than four bytes gets the warning.
\<close>

theorem valid_iff_magic:
  assumes "stat_size (snd ent) = Inr sz"
    and "open_rb (snd ent) = Inr f"
    and "file_read f 8 = Inr header"
  shows "console (fst (process_entries (ent # rest))) =
           FileName (fst ent) # FileSize sz #
           (if take 4 header = ''ElfF'' then ValidSignature else SignatureWarning) #
           console (fst (process_entries rest))
         \<and> (length header < 4 \<longrightarrow>
              console (check_signature ent) = [SignatureWarning])"
  using assms by (auto simp: check_signature_def console_append split: prod.splits)

text \<open>
  C1 at the spec's example file (eight bytes that start with the magic) and at a file of
  two bytes.
\<close>

theorem valid_iff_magic_witness:
  "stat_size (snd (''a.evtx'', Inr (File None None ''ElfFile0''))) = Inr 8
   \<and> open_rb (snd (''a.evtx'', Inr (File None None ''ElfFile0''))) = Inr (Handle None ''ElfFile0'')
   \<and> file_read (Handle None ''ElfFile0'') 8 = Inr ''ElfFile0''
   \<and> console (fst (process_entries [(''a.evtx'', Inr (File None None ''ElfFile0''))])) =
       [FileName ''a.evtx'', FileSize 8, ValidSignature]
   \<and> stat_size (snd (''short.evtx'', Inr (File None None ''El''))) = Inr 2
   \<and> open_rb (snd (''short.evtx'', Inr (File None None ''El''))) = Inr (Handle None ''El'')
   \<and> file_read (Handle None ''El'') 8 = Inr ''El''
   \<and> console (check_signature (''short.evtx'', Inr (File None None ''El''))) = [SignatureWarning]"
  using valid_iff_magic [of "(''a.evtx'', Inr (File None None ''ElfFile0''))" 8
                            "Handle None ''ElfFile0''" "''ElfFile0''" "[]"]
        valid_iff_magic [of "(''short.evtx'', Inr (File None None ''El''))" 2
                            "Handle None ''El''" "''El''" "[]"]
  by simp

subsection \<open>C2: a path that does not exist\<close>

text \<open>
  Claim C2, as stated, fails. The path below does not exist, and it lies under a directory
  the process may not search: \<^verbatim>\<open>stat\<close> raises \<^verbatim>\<open>PermissionError\<close>, which
  \<^verbatim>\<open>Path.exists()\<close> raises again. The exception leaves the function and nothing is printed.
\<close>

theorem missing_directory_counterexample:
  "lookup vault_fs ''vault/gone'' = None
   \<and> read_evtx_files vault_fs ''vault/gone'' = ([Exists ''vault/gone''], Some PermissionError)
   \<and> console (fst (read_evtx_files vault_fs ''vault/gone'')) = []"
  by (simp add: run_vault) (simp add: vault_fs_def)

text \<open>
  Claim C2, amended. When the path does not exist and resolving it raises no error other
  than those \<^verbatim>\<open>Path.exists()\<close> ignores (\<^verbatim>\<open>ENOENT\<close>, \<^verbatim>\<open>ENOTDIR\<close>, \<^verbatim>\<open>EBADF\<close>, \<^verbatim>\<open>ELOOP\<close>),
  the run is the existence test and the report of the missing directory, nothing else: no
  enumeration, no count, no entry; and the function returns, no exception leaves it.
\<close>

theorem missing_directory:
  assumes "lookup fs directory = None"
    and "case access fs directory of None \<Rightarrow> True | Some e \<Rightarrow> ignore_error e"
  shows "read_evtx_files fs directory =
           ([Exists directory, Print (DirectoryMissing directory)], None)"
  using assms
  by (auto simp: read_evtx_files_def path_exists_def stat_path_def ignore_error_def
           split: option.splits)

text \<open>C2 amended, at a path the example file system does not have.\<close>

theorem missing_directory_witness:
  "lookup example_fs ''nowhere'' = None
   \<and> (case access example_fs ''nowhere'' of None \<Rightarrow> True | Some e \<Rightarrow> ignore_error e)
   \<and> read_evtx_files example_fs ''nowhere'' =
       ([Exists ''nowhere'', Print (DirectoryMissing ''nowhere'')], None)"
  using missing_directory [of example_fs "''nowhere''"]
  by (simp add: example_fs_def)

subsection \<open>C3: a failing open or read is local to its entry\<close>

text \<open>
  Claim C3. Let the matched entries be \<open>pre @ ent # post\<close>, where the loop reaches \<open>ent\<close>
  (every \<^verbatim>\<open>stat\<close> before it succeeds), the size of \<open>ent\<close> is obtained and its open or its
  read of eight bytes raises \<open>e\<close>. Then the console is the count, the rule, the reports of
  the entries before, the three lines of \<open>ent\<close> (name, size, the error \<open>e\<close>), and then
  precisely what the loop prints for the remaining entries \<open>post\<close>; and the scan ends the
  way the loop over \<open>post\<close> ends. The failure adds one line and aborts nothing.
\<close>

theorem read_failure_is_local:
  assumes "stat_path fs directory = Inr d"
    and "path_glob d = Inr (pre @ ent # post)"
    and "list_all stat_ok pre"
    and "stat_size (snd ent) = Inr sz"
    and "read_failure ent = Some e"
  shows "console (fst (read_evtx_files fs directory)) =
           FoundCount (length (pre @ ent # post)) # Rule #
           concat (map entry_report pre) @
           [FileName (fst ent), FileSize sz, ReadError e] @
           console (fst (process_entries post))
         \<and> snd (read_evtx_files fs directory) = snd (process_entries post)"
proof -
  have step: "process_entries (ent # post) =
      (Print (FileName (fst ent)) # Stat (fst ent) # Print (FileSize sz) #
       check_signature ent @ fst (process_entries post), snd (process_entries post))"
    using assms(4) by (simp split: prod.splits)
  have whole: "process_entries (pre @ ent # post) =
      (fst (process_entries pre) @ fst (process_entries (ent # post)),
       snd (process_entries (ent # post)))"
    using assms(3) by (rule process_entries_append)
  have "read_evtx_files fs directory =
      (Exists directory # Glob directory ''*.evtx'' #
       Print (FoundCount (length (pre @ ent # post))) # Print Rule #
       fst (process_entries (pre @ ent # post)), snd (process_entries (pre @ ent # post)))"
    using assms(1,2) by (intro scan_on_matches) simp_all
  then show ?thesis
    using step whole assms(3,5)
    by (simp add: console_append process_entries_ok console_check_signature_failure)
qed

text \<open>
  C3 at a directory whose first matched file cannot be opened: the two entries after it
  are reported and the function returns.
\<close>

theorem read_failure_is_local_witness:
  "stat_path mixed_fs ''logs'' = Inr mixed_dir
   \<and> path_glob mixed_dir =
       Inr ([] @ (''locked.evtx'', Inr (File (Some PermissionError) None ''ElfFile0'')) #
         [(''sub.evtx'', Inr (Dir 64 None [(''inner.evtx'', Inr (File None None ''ElfFile0''))])),
          (''short.evtx'', Inr (File None None ''El''))])
   \<and> list_all stat_ok []
   \<and> stat_size (snd (''locked.evtx'', Inr (File (Some PermissionError) None ''ElfFile0''))) = Inr 8
   \<and> read_failure (''locked.evtx'', Inr (File (Some PermissionError) None ''ElfFile0'')) =
       Some PermissionError
   \<and> console (fst (read_evtx_files mixed_fs ''logs'')) =
       [FoundCount 3, Rule,
        FileName ''locked.evtx'', FileSize 8, ReadError PermissionError,
        FileName ''sub.evtx'', FileSize 64, ReadError IsADirectoryError,
        FileName ''short.evtx'', FileSize 2, SignatureWarning]
   \<and> snd (read_evtx_files mixed_fs ''logs'') = None"
  using read_failure_is_local [of mixed_fs "''logs''" mixed_dir "[]"
          "(''locked.evtx'', Inr (File (Some PermissionError) None ''ElfFile0''))"
          "[(''sub.evtx'', Inr (Dir 64 None [(''inner.evtx'', Inr (File None None ''ElfFile0''))])),
            (''short.evtx'', Inr (File None None ''El''))]" 8 PermissionError]
  by (simp add: stat_mixed glob_mixed matching_mixed read_failure_def check_signature_def)

subsection \<open>C4: exactly the matching entries are reported\<close>

text \<open>
  Claim C4, as stated, fails, in three ways.
  \<^item> The first directory has three immediate entries whose names end in \<^verbatim>\<open>.evtx\<close>; the
    first no longer resolves, \<^verbatim>\<open>stat\<close> raises outside the \<^verbatim>\<open>try\<close> block, and the other
    two are never reported.
  \<^item> The second directory exists and has three such entries, and may not be listed:
    \<^verbatim>\<open>glob\<close> swallows the \<^verbatim>\<open>PermissionError\<close> and the scan reports that there are no
    matching files.
  \<^item> The third directory exists and has one such entry, and lies under a directory that
    may not be searched: the existence test raises and nothing is reported.
\<close>

theorem matching_entries_counterexample:
  "(lookup dangling_fs ''logs'' = Some dangling_dir
    \<and> is_directory dangling_dir
    \<and> map fst (matching (entries dangling_dir)) = [''a.evtx'', ''b.evtx'', ''sub.evtx'']
    \<and> reported_names (console (fst (read_evtx_files dangling_fs ''logs''))) = [''a.evtx''])
   \<and> (lookup unlistable_fs ''drop'' = Some unlistable_dir
    \<and> is_directory unlistable_dir
    \<and> map fst (matching (entries unlistable_dir)) = [''a.evtx'', ''b.evtx'', ''sub.evtx'']
    \<and> console (fst (read_evtx_files unlistable_fs ''drop'')) = [NoFilesFound ''drop''])
   \<and> (lookup vault_fs ''vault/logs'' = Some vault_logs
    \<and> is_directory vault_logs
    \<and> map fst (matching (entries vault_logs)) = [''a.evtx'']
    \<and> read_evtx_files vault_fs ''vault/logs'' = ([Exists ''vault/logs''], Some PermissionError))"
  by (simp add: run_dangling run_unlistable run_vault matching_dangling)
     (simp add: dangling_fs_def dangling_dir_def unlistable_fs_def unlistable_dir_def
                vault_fs_def vault_logs_def matching_def fnmatch_evtx_def)

text \<open>
  Claim C4, amended. In an existing directory that the scan can reach (\<^verbatim>\<open>stat\<close> on the path
  succeeds) and list, and where the size of every matching entry can be obtained, the
  names the console mentions are exactly the names of the immediate entries that end in
  \<^verbatim>\<open>.evtx\<close> (compared case-sensitively), in enumeration order and each as often as it is
  listed; when there is at least one, the count printed is their number and the console
  is the count, the rule and the report of each matching entry in turn; no non-matching
  entry is mentioned; and the function returns. Only the entries \<open>es\<close> of the directory
  itself are looked at, whatever the subdirectories hold.
\<close>

theorem matching_entries_reported:
  assumes "stat_path fs directory = Inr (Dir sz None es)"
    and "matched = filter (\<lambda>ent. suffix ''.evtx'' (fst ent)) es"
    and "list_all stat_ok matched"
  shows "console (fst (read_evtx_files fs directory)) =
           (if matched = [] then [NoFilesFound directory]
            else FoundCount (length matched) # Rule # concat (map entry_report matched))
         \<and> reported_names (console (fst (read_evtx_files fs directory))) = map fst matched
         \<and> snd (read_evtx_files fs directory) = None
         \<and> (\<forall>ent \<in> set es. \<not> suffix ''.evtx'' (fst ent) \<longrightarrow>
               fst ent \<notin> set (reported_names (console (fst (read_evtx_files fs directory)))))"
proof -
  have glob: "path_glob (Dir sz None es) = Inr matched"
    using assms(2) by (simp add: matching_suffix)
  have main: "console (fst (read_evtx_files fs directory)) =
           (if matched = [] then [NoFilesFound directory]
            else FoundCount (length matched) # Rule # concat (map entry_report matched))
         \<and> snd (read_evtx_files fs directory) = None"
  proof (cases "matched = []")
    case True
    then show ?thesis
      using scan_no_matches [of fs directory, OF assms(1)] glob by simp
  next
    case False
    then show ?thesis
      using scan_on_matches [of fs directory, OF assms(1) glob] process_entries_ok [OF assms(3)]
      by simp
  qed
  have names: "reported_names (console (fst (read_evtx_files fs directory))) = map fst matched"
    using main reported_names_entries [OF assms(3)] by (cases "matched = []") simp_all
  have "\<forall>ent \<in> set es. \<not> suffix ''.evtx'' (fst ent) \<longrightarrow> fst ent \<notin> set (map fst matched)"
    using assms(2) by auto
  then show ?thesis
    using main names by simp
qed

text \<open>
  C4 amended, at a directory with three matching entries, one entry with an upper-case
  extension and a matching file inside a subdirectory.
\<close>

theorem matching_entries_reported_witness:
  "stat_path mixed_fs ''logs'' = Inr mixed_dir
   \<and> list_all stat_ok (matching (entries mixed_dir))
   \<and> reported_names (console (fst (read_evtx_files mixed_fs ''logs''))) =
       [''locked.evtx'', ''sub.evtx'', ''short.evtx'']
   \<and> ''README.EVTX'' \<notin> set (reported_names (console (fst (read_evtx_files mixed_fs ''logs''))))
   \<and> ''inner.evtx'' \<notin> set (reported_names (console (fst (read_evtx_files mixed_fs ''logs''))))
   \<and> snd (read_evtx_files mixed_fs ''logs'') = None"
proof -
  let ?es = "[(''locked.evtx'', Inr (File (Some PermissionError) None ''ElfFile0'')),
        (''README.EVTX'', Inr (File None None ''ElfFile0'')),
        (''sub.evtx'', Inr (Dir 64 None [(''inner.evtx'', Inr (File None None ''ElfFile0''))])),
        (''short.evtx'', Inr (File None None ''El''))]"
  have fs: "stat_path mixed_fs ''logs'' = Inr (Dir 4096 None ?es)"
    by (simp add: stat_mixed mixed_dir_def)
  have matched: "matching (entries mixed_dir) = filter (\<lambda>ent. suffix ''.evtx'' (fst ent)) ?es"
    by (simp add: mixed_dir_def matching_suffix)
  have ok: "list_all stat_ok (matching (entries mixed_dir))"
    by (simp add: matching_mixed)
  have names: "map fst (matching (entries mixed_dir)) =
      [''locked.evtx'', ''sub.evtx'', ''short.evtx'']"
    by (simp add: matching_mixed)
  note m = matching_entries_reported [of mixed_fs "''logs''", OF fs matched ok]
  have n: "reported_names (console (fst (read_evtx_files mixed_fs ''logs''))) =
      map fst (matching (entries mixed_dir))"
    using m by blast
  have r: "snd (read_evtx_files mixed_fs ''logs'') = None"
    using m by blast
  show ?thesis
    using n r ok names stat_mixed by simp
qed

subsection \<open>C5: what the initial check tests\<close>

text \<open>
  Claim C5, as stated, fails in its first half. The path below exists and names a regular
  file, not a directory, and the run goes past the initial check all the same: it
  enumerates and prints that no files were found, not that the directory is missing.
\<close>

theorem initial_check_counterexample:
  "lookup plain_file_fs ''notes.txt'' = Some (File None None ''hello'')
   \<and> \<not> is_directory (File None None ''hello'')
   \<and> past_initial_check (fst (read_evtx_files plain_file_fs ''notes.txt''))
   \<and> console (fst (read_evtx_files plain_file_fs ''notes.txt'')) = [NoFilesFound ''notes.txt'']"
  by (simp add: run_plain_file past_initial_check_def) (simp add: plain_file_fs_def)

text \<open>
  Claim C5, amended. The scan goes past its initial check only when the target exists; it
  need not be a directory. For every existing path that is not a directory, the scan does
  not proceed to per-entry reporting: no line of the loop is printed, and when the
  existence test answers, the scan reports that no matching files were found and returns.
\<close>

theorem initial_check_only_if_exists:
  "(past_initial_check (fst (read_evtx_files fs directory)) \<longrightarrow> lookup fs directory \<noteq> None)
   \<and> (lookup fs directory = Some (File oe re bs) \<longrightarrow>
        filter is_entry_report (console (fst (read_evtx_files fs directory))) = []
        \<and> (path_exists fs directory = Inr True \<longrightarrow>
             read_evtx_files fs directory =
               ([Exists directory, Glob directory ''*.evtx'', Print (NoFilesFound directory)],
                None)))"
proof -
  have first: "past_initial_check (fst (read_evtx_files fs directory)) \<longrightarrow>
      lookup fs directory \<noteq> None"
    by (auto simp: read_evtx_files_def past_initial_check_def path_exists_def stat_path_def
             split: sum.splits option.splits if_splits prod.splits)
  have second: "lookup fs directory = Some (File oe re bs) \<longrightarrow>
        filter is_entry_report (console (fst (read_evtx_files fs directory))) = []
        \<and> (path_exists fs directory = Inr True \<longrightarrow>
             read_evtx_files fs directory =
               ([Exists directory, Glob directory ''*.evtx'', Print (NoFilesFound directory)],
                None))"
    by (auto simp: read_evtx_files_def path_exists_def stat_path_def glob_at_def
             split: sum.splits option.splits if_splits)
  show ?thesis
    using first second by blast
qed

text \<open>C5 amended, at a path that names a regular file and at a path that does not exist.\<close>

theorem initial_check_only_if_exists_witness:
  "past_initial_check (fst (read_evtx_files plain_file_fs ''notes.txt''))
   \<and> lookup plain_file_fs ''notes.txt'' = Some (File None None ''hello'')
   \<and> path_exists plain_file_fs ''notes.txt'' = Inr True
   \<and> filter is_entry_report (console (fst (read_evtx_files plain_file_fs ''notes.txt''))) = []
   \<and> read_evtx_files plain_file_fs ''notes.txt'' =
       ([Exists ''notes.txt'', Glob ''notes.txt'' ''*.evtx'', Print (NoFilesFound ''notes.txt'')],
        None)
   \<and> lookup plain_file_fs ''evtx_files'' = None
   \<and> \<not> past_initial_check (fst (read_evtx_files plain_file_fs ''evtx_files''))"
  using initial_check_only_if_exists [of plain_file_fs "''notes.txt''" None None "''hello''"]
        initial_check_only_if_exists [of plain_file_fs "''evtx_files''" None None "''hello''"]
  by (simp add: run_plain_file past_initial_check_def)
     (simp add: plain_file_fs_def path_exists_def stat_path_def)

subsection \<open>C6: a directory without a matching entry\<close>

text \<open>
  Claim C6, as stated, fails, in two ways. The first directory exists, has no matching
  entry and lies under a directory that may not be searched: the existence test raises
  \<^verbatim>\<open>PermissionError\<close>, nothing is reported and the function does not return. The second
  exists, has no matching entry, and listing it fails with an I/O error, which \<^verbatim>\<open>glob\<close>
  does not catch: again nothing is reported.
\<close>

theorem no_matches_counterexample:
  "(lookup vault_fs ''vault/docs'' = Some vault_docs
    \<and> is_directory vault_docs
    \<and> matching (entries vault_docs) = []
    \<and> read_evtx_files vault_fs ''vault/docs'' = ([Exists ''vault/docs''], Some PermissionError))
   \<and> (lookup faulty_fs ''bad'' = Some faulty_dir
    \<and> is_directory faulty_dir
    \<and> matching (entries faulty_dir) = []
    \<and> read_evtx_files faulty_fs ''bad'' =
        ([Exists ''bad'', Glob ''bad'' ''*.evtx''], Some (OSError 5)))"
  by (simp add: run_vault run_faulty)
     (simp add: vault_fs_def vault_docs_def faulty_fs_def faulty_dir_def matching_def
                fnmatch_evtx_def)

text \<open>
  Claim C6, amended. For an existing directory that the scan can reach (\<^verbatim>\<open>stat\<close> on the
  path succeeds), whose listing succeeds or fails with \<^verbatim>\<open>PermissionError\<close>, and none of
  whose immediate entries has a name ending in \<^verbatim>\<open>.evtx\<close>, the run is the existence test,
  the enumeration and the report that no matching files were found; there is no count and
  no per-entry report, and the function returns.
\<close>

theorem no_matches_reported:
  assumes "stat_path fs directory = Inr (Dir sz le es)"
    and "filter (\<lambda>ent. suffix ''.evtx'' (fst ent)) es = []"
    and "case le of None \<Rightarrow> True | Some e \<Rightarrow> e = PermissionError"
  shows "read_evtx_files fs directory =
           ([Exists directory, Glob directory ''*.evtx'', Print (NoFilesFound directory)], None)"
proof -
  have "path_glob (Dir sz le es) = Inr []"
    using assms(2,3) by (cases le) (simp_all add: matching_suffix)
  then show ?thesis
    using assms(1) by (intro scan_no_matches)
qed

text \<open>C6 amended, at a directory holding \<^verbatim>\<open>notes.txt\<close> and a file named \<^verbatim>\<open>evtx\<close> (no dot).\<close>

theorem no_matches_reported_witness:
  "stat_path no_match_fs ''docs'' =
     Inr (Dir 4096 None [(''notes.txt'', Inr (File None None ''hello'')),
                         (''evtx'', Inr (File None None ''ElfFile0''))])
   \<and> filter (\<lambda>ent. suffix ''.evtx'' (fst ent))
        [(''notes.txt'', Inr (File None None ''hello'')),
         (''evtx'', Inr (File None None ''ElfFile0''))] = []
   \<and> (case None :: exn option of None \<Rightarrow> True | Some e \<Rightarrow> e = PermissionError)
   \<and> read_evtx_files no_match_fs ''docs'' =
       ([Exists ''docs'', Glob ''docs'' ''*.evtx'', Print (NoFilesFound ''docs'')], None)"
  using no_matches_reported [of no_match_fs "''docs''" 4096 None
          "[(''notes.txt'', Inr (File None None ''hello'')),
            (''evtx'', Inr (File None None ''ElfFile0''))]"]
  by (simp add: no_match_fs_def stat_path_def fnmatch_evtx_suffix [symmetric] fnmatch_evtx_def)

subsection \<open>C7: eight bytes are read, four are compared\<close>

text \<open>
  Claim C7. Two files that agree on their first four bytes get the same signature check,
  effect for effect, whatever bytes five to eight (and all later ones) are. Whenever the
  file opens, the check asks for eight bytes; and on a readable file it is: open in mode
  \<^verbatim>\<open>rb\<close>, read eight bytes, print the verdict on the first four, close.
\<close>

theorem header_tail_ignored:
  assumes "take 4 bs = take 4 bs'"
  shows "check_signature (nm, Inr (File oe re bs)) = check_signature (nm, Inr (File oe re bs'))
         \<and> (oe = None \<longrightarrow> Read 8 \<in> set (check_signature (nm, Inr (File oe re bs))))
         \<and> check_signature (nm, Inr (File None None bs)) =
             [Open nm ''rb'', Read 8,
              Print (if take 4 bs = ''ElfF'' then ValidSignature else SignatureWarning), Close]"
  using assms
  by (cases oe; cases re) (simp_all add: check_signature_def)

text \<open>C7 at two files that share the magic and differ afterwards.\<close>

theorem header_tail_ignored_witness:
  "take 4 ''ElfFile0'' = take 4 ''ElfF\<newline>\<newline>''
   \<and> check_signature (''a.evtx'', Inr (File None None ''ElfFile0'')) =
       check_signature (''a.evtx'', Inr (File None None ''ElfF\<newline>\<newline>''))
   \<and> check_signature (''a.evtx'', Inr (File None None ''ElfFile0'')) =
       [Open ''a.evtx'' ''rb'', Read 8, Print ValidSignature, Close]"
  using header_tail_ignored [of "''ElfFile0''" "''ElfF\<newline>\<newline>''" "''a.evtx''" None None]
  by (simp add: check_signature_def)

subsection \<open>C8: the scan changes nothing but the console\<close>

text \<open>
  Claim C8. For every file system and every path, no effect of the run changes the file
  system: the run consists of printed lines, the existence test, the enumeration, calls of
  \<^verbatim>\<open>stat\<close>, and opening in mode \<^verbatim>\<open>rb\<close>, reading and closing.
\<close>

theorem scan_is_read_only:
  "list_all (\<lambda>x. \<not> mutating x) (fst (read_evtx_files fs directory))"
proof (cases "glob_at fs directory")
  case (Inl e)
  then show ?thesis
    by (simp add: read_evtx_files_def split: sum.splits)
next
  case (Inr ms)
  then show ?thesis
    using not_mutating_process_entries [of ms]
    by (auto simp: read_evtx_files_def split: sum.splits prod.splits)
qed

text \<open>
  C8 at the spec's example; opening the same file in mode \<^verbatim>\<open>wb\<close> would count as a
  change.
\<close>

theorem scan_is_read_only_witness:
  "list_all (\<lambda>x. \<not> mutating x)
     [Exists ''evtx_files'', Glob ''evtx_files'' ''*.evtx'', Print (FoundCount 1), Print Rule,
      Print (FileName ''a.evtx''), Stat ''a.evtx'', Print (FileSize 8),
      Open ''a.evtx'' ''rb'', Read 8, Print ValidSignature, Close]
   \<and> mutating (Open ''a.evtx'' ''wb'')"
  using scan_is_read_only [of example_fs "''evtx_files''"]
  by (simp add: run_example)

subsection \<open>C9: a failing \<^verbatim>\<open>stat\<close> leaves the function\<close>

text \<open>
  Claim C9. Let the matched entries be \<open>pre @ ent # post\<close>, where every \<^verbatim>\<open>stat\<close> in
  \<open>pre\<close> succeeds and the \<^verbatim>\<open>stat\<close> of \<open>ent\<close> raises \<open>e\<close>. Then the run ends right after
  the name of \<open>ent\<close> was printed and \<^verbatim>\<open>stat\<close> was called: the exception \<open>e\<close> leaves the
  function, and nothing is done for the entries \<open>post\<close>, which the result does not depend on.
\<close>

theorem stat_failure_aborts:
  assumes "stat_path fs directory = Inr d"
    and "path_glob d = Inr (pre @ ent # post)"
    and "list_all stat_ok pre"
    and "stat_size (snd ent) = Inl e"
  shows "read_evtx_files fs directory =
           (Exists directory # Glob directory ''*.evtx'' #
            Print (FoundCount (length (pre @ ent # post))) # Print Rule #
            fst (process_entries pre) @ [Print (FileName (fst ent)), Stat (fst ent)],
            Some e)"
proof -
  have step: "process_entries (ent # post) =
      ([Print (FileName (fst ent)), Stat (fst ent)], Some e)"
    using assms(4) by simp
  have whole: "process_entries (pre @ ent # post) =
      (fst (process_entries pre) @ fst (process_entries (ent # post)),
       snd (process_entries (ent # post)))"
    using assms(3) by (rule process_entries_append)
  have "read_evtx_files fs directory =
      (Exists directory # Glob directory ''*.evtx'' #
       Print (FoundCount (length (pre @ ent # post))) # Print Rule #
       fst (process_entries (pre @ ent # post)), snd (process_entries (pre @ ent # post)))"
    using assms(1,2) by (intro scan_on_matches) simp_all
  then show ?thesis
    using step whole by simp
qed

text \<open>C9 at a directory whose first matching name no longer resolves.\<close>

theorem stat_failure_aborts_witness:
  "stat_path dangling_fs ''logs'' = Inr dangling_dir
   \<and> path_glob dangling_dir =
       Inr ([] @ (''a.evtx'', Inl FileNotFoundError) #
         [(''b.evtx'', Inr (File None None ''ElfFile0'')), (''sub.evtx'', Inr (Dir 64 None []))])
   \<and> list_all stat_ok []
   \<and> stat_size (snd (''a.evtx'', Inl FileNotFoundError)) = Inl FileNotFoundError
   \<and> read_evtx_files dangling_fs ''logs'' =
       ([Exists ''logs'', Glob ''logs'' ''*.evtx'', Print (FoundCount 3), Print Rule,
         Print (FileName ''a.evtx''), Stat ''a.evtx''], Some FileNotFoundError)"
  using stat_failure_aborts [of dangling_fs "''logs''" dangling_dir "[]"
          "(''a.evtx'', Inl FileNotFoundError)"
          "[(''b.evtx'', Inr (File None None ''ElfFile0'')), (''sub.evtx'', Inr (Dir 64 None []))]"
          FileNotFoundError]
  by (simp add: stat_dangling glob_dangling matching_dangling)

subsection \<open>C10: a subdirectory whose name matches\<close>




end
